theory Spec2Isabelle
  imports Complex_Main
begin

section \<open>The colour picker of viron (src/core/mixin.js, second module)\<close>

text \<open>
  The file embeds the colour-picker script: the hex validators, the converter
  \<open>convertColor\<close>, the component state with its two memories, the coordinate mapper
  \<open>getColorObject\<close>, \<open>getHsv\<close>, the format cycler and the UI handlers.

  JavaScript numbers are modelled as exact rationals: rounding error of IEEE doubles is not
  represented, and a computation whose JavaScript result is \<open>NaN\<close> or an infinity (a
  division by a zero width or height) is the value \<open>Inl NonFinite\<close>. A \<open>TypeError\<close> that the
  script would throw (calling \<open>.match\<close> on a value that is not a string, reading a property
  of \<open>undefined\<close>) is \<open>Inl TypeError\<close>.
\<close>

subsection \<open>Numbers, errors, colour values\<close>

datatype error = TypeError | NonFinite

text \<open>\<open>Math.round\<close>: the nearest integer, a tie going up.\<close>

definition Math_round :: "rat \<Rightarrow> rat" where
  "Math_round x = of_int \<lfloor>x + 1 / 2\<rfloor>"

text \<open>\<open>COLOR_CODE\<close>.\<close>

datatype color_code = HEX | RGBA | HSV

record rgba =
  rgb_r :: rat
  rgb_g :: rat
  rgb_b :: rat
  rgb_a :: rat

text \<open>
  The object \<open>{h, s, v}\<close>. tinycolor's \<open>toHsv\<close> adds a field \<open>a\<close>; the script never reads
  it, and it is left out.
\<close>

record hsv =
  hsv_h :: rat
  hsv_s :: rat
  hsv_v :: rat

text \<open>
  What the field \<open>value\<close> of a colour can hold: a string (a hex code, possibly being typed),
  an object \<open>{r, g, b, a}\<close> or an object \<open>{h, s, v}\<close>. The field \<open>format\<close> is independent
  of it, as in the script.
\<close>

datatype color_value = StrV string | RgbaV rgba | HsvV hsv

record color =
  format :: color_code
  cvalue :: color_value

subsection \<open>Hex validation\<close>

definition isHexDigit :: "char \<Rightarrow> bool" where
  "isHexDigit c =
     (let n = (of_char c :: nat)
      in (48 \<le> n \<and> n \<le> 57) \<or> (65 \<le> n \<and> n \<le> 70) \<or> (97 \<le> n \<and> n \<le> 102))"

text \<open>The optional leading \<open>#\<close> of the three patterns (\<open>^#?\<close>).\<close>

definition dropPound :: "string \<Rightarrow> string" where
  "dropPound v = (case v of [] \<Rightarrow> [] | c # cs \<Rightarrow> if c = CHR ''#'' then cs else v)"

text \<open>\<open>/^#?([0-9A-Fa-f]{3}|[0-9A-Fa-f]{6})$/\<close>\<close>

definition isHex :: "string \<Rightarrow> bool" where
  "isHex v =
     (let d = dropPound v in (length d = 3 \<or> length d = 6) \<and> list_all isHexDigit d)"

text \<open>\<open>/^#?[0-9A-Fa-f]{0,6}$/\<close>\<close>

definition isTypingHex :: "string \<Rightarrow> bool" where
  "isTypingHex v = (let d = dropPound v in length d \<le> 6 \<and> list_all isHexDigit d)"

definition concatenatePoundKey :: "string \<Rightarrow> string" where
  "concatenatePoundKey v =
     (if (case v of [] \<Rightarrow> False | c # _ \<Rightarrow> c = CHR ''#'') then v else CHR ''#'' # v)"

text \<open>
  \<open>value.replace(/\<dots>/g, ' ')\<close>, where the pattern is the full-width space U+3000 and the
  replacement is one ASCII space. Strings are held as UTF-8 bytes, in which U+3000 is the
  three bytes E3 80 80; no other character's encoding contains that sequence.
\<close>

fun replaceFullWidthSpace :: "string \<Rightarrow> string" where
  "replaceFullWidthSpace (c1 # c2 # c3 # cs) =
     (if c1 = CHR 0xE3 \<and> c2 = CHR 0x80 \<and> c3 = CHR 0x80
      then CHR '' '' # replaceFullWidthSpace cs
      else c1 # replaceFullWidthSpace (c2 # c3 # cs))"
| "replaceFullWidthSpace cs = cs"

subsection \<open>The external library tinycolor2\<close>

text \<open>
  tinycolor2 is not part of the repository; the script uses it as its arithmetic primitive.
  The definitions of this subsection model the library's documented behaviour on the inputs
  the script hands to it: hex strings of 3, 4, 6 or 8 digits, the string
  \<open>hsv(h, s%, v%)\<close> that \<open>convertColor\<close> builds, and objects \<open>{r, g, b, a}\<close> and
  \<open>{h, s, v}\<close>. Colour names, the other functional notations and blanks around a string
  are outside the model: such a string is treated as one tinycolor cannot parse, for which
  the library yields opaque black. The printing of a number into the \<open>hsv(\<dots>)\<close> string and
  its parsing back are taken as the identity.
\<close>

record tinycolor =
  tc_r :: rat
  tc_g :: rat
  tc_b :: rat
  tc_a :: rat

text \<open>\<open>bound01(n, max)\<close> for a number.\<close>

definition bound01 :: "rat \<Rightarrow> rat \<Rightarrow> rat" where
  "bound01 n mx =
     (let n' = min mx (max 0 n)
      in if \<bar>n' - mx\<bar> < 1 / 1000000 then 1 else n' / mx)"

text \<open>\<open>bound01(n, max)\<close> for a string \<open>n%\<close>: the percentage is cut to two decimals.\<close>

definition bound01_percent :: "rat \<Rightarrow> rat \<Rightarrow> rat" where
  "bound01_percent n mx =
     (let n' = of_int \<lfloor>min mx (max 0 n) * mx\<rfloor> / 100
      in if \<bar>n' - mx\<bar> < 1 / 1000000 then 1 else n' / mx)"

definition boundAlpha :: "rat \<Rightarrow> rat" where
  "boundAlpha x = (if x < 0 \<or> x > 1 then 1 else x)"

text \<open>
  The end of \<open>inputToRGB\<close> and of the constructor: each channel is clamped to 0..255, and a
  channel below 1 is rounded.
\<close>

definition channel :: "rat \<Rightarrow> rat" where
  "channel x = (let c = min 255 (max x 0) in if c < 1 then Math_round c else c)"

definition mk_tinycolor :: "rat \<Rightarrow> rat \<Rightarrow> rat \<Rightarrow> rat \<Rightarrow> tinycolor" where
  "mk_tinycolor x y z al =
     \<lparr>tc_r = channel x, tc_g = channel y, tc_b = channel z, tc_a = boundAlpha al\<rparr>"

text \<open>An input the library cannot parse.\<close>

definition tinycolor_invalid :: tinycolor where
  "tinycolor_invalid = mk_tinycolor 0 0 0 1"

definition rgbToRgb :: "rat \<Rightarrow> rat \<Rightarrow> rat \<Rightarrow> rat \<times> rat \<times> rat" where
  "rgbToRgb x y z = (bound01 x 255 * 255, bound01 y 255 * 255, bound01 z 255 * 255)"

definition hsvToRgb :: "rat \<Rightarrow> rat \<Rightarrow> rat \<Rightarrow> rat \<times> rat \<times> rat" where
  "hsvToRgb h01 s01 v01 =
     (let h6 = h01 * 6;
          i = \<lfloor>h6\<rfloor>;
          f = h6 - of_int i;
          p = v01 * (1 - s01);
          q = v01 * (1 - f * s01);
          t = v01 * (1 - (1 - f) * s01);
          m = nat (i mod 6)
      in ([v01, q, p, p, t, v01] ! m * 255,
          [t, v01, v01, q, p, p] ! m * 255,
          [p, p, t, v01, v01, q] ! m * 255))"

definition rgbToHsv :: "rat \<Rightarrow> rat \<Rightarrow> rat \<Rightarrow> hsv" where
  "rgbToHsv x y z =
     (let r1 = bound01 x 255; g1 = bound01 y 255; b1 = bound01 z 255;
          mx = max r1 (max g1 b1);
          mn = min r1 (min g1 b1);
          d = mx - mn;
          s1 = (if mx = 0 then 0 else d / mx);
          h1 = (if mx = mn then 0
                else (if mx = r1 then (g1 - b1) / d + (if g1 < b1 then 6 else 0)
                      else if mx = g1 then (b1 - r1) / d + 2
                      else (r1 - g1) / d + 4) / 6)
      in \<lparr>hsv_h = h1, hsv_s = s1, hsv_v = mx\<rparr>)"

text \<open>\<open>parseInt(c, 16)\<close> on one hex digit, and on a string of them.\<close>

definition hexDigitValue :: "char \<Rightarrow> nat" where
  "hexDigitValue c =
     (let n = (of_char c :: nat)
      in if 48 \<le> n \<and> n \<le> 57 then n - 48
         else if 65 \<le> n \<and> n \<le> 70 then n - 55
         else n - 87)"

definition parseIntFromHex :: "string \<Rightarrow> rat" where
  "parseIntFromHex ds = of_nat (foldl (\<lambda>acc c. acc * 16 + hexDigitValue c) 0 ds)"

text \<open>The four hex patterns of \<open>stringInputToObject\<close>, tried in the order 8, 6, 4, 3.\<close>

definition hexPair :: "string \<Rightarrow> nat \<Rightarrow> rat" where
  "hexPair d i = parseIntFromHex (take 2 (drop (2 * i) d))"

definition hexTwice :: "string \<Rightarrow> nat \<Rightarrow> rat" where
  "hexTwice d i = parseIntFromHex [d ! i, d ! i]"

definition tinycolor_string :: "string \<Rightarrow> tinycolor" where
  "tinycolor_string str =
     (let d = dropPound str
      in if \<not> list_all isHexDigit d then tinycolor_invalid
         else if length d = 8 then
           (case rgbToRgb (hexPair d 0) (hexPair d 1) (hexPair d 2) of
              (x, y, z) \<Rightarrow> mk_tinycolor x y z (hexPair d 3 / 255))
         else if length d = 6 then
           (case rgbToRgb (hexPair d 0) (hexPair d 1) (hexPair d 2) of
              (x, y, z) \<Rightarrow> mk_tinycolor x y z 1)
         else if length d = 4 then
           (case rgbToRgb (hexTwice d 0) (hexTwice d 1) (hexTwice d 2) of
              (x, y, z) \<Rightarrow> mk_tinycolor x y z (hexTwice d 3 / 255))
         else if length d = 3 then
           (case rgbToRgb (hexTwice d 0) (hexTwice d 1) (hexTwice d 2) of
              (x, y, z) \<Rightarrow> mk_tinycolor x y z 1)
         else tinycolor_invalid)"

text \<open>An object \<open>{r, g, b, a}\<close>.\<close>

definition tinycolor_rgba :: "rgba \<Rightarrow> tinycolor" where
  "tinycolor_rgba c =
     (case rgbToRgb (rgb_r c) (rgb_g c) (rgb_b c) of
        (x, y, z) \<Rightarrow> mk_tinycolor x y z (rgb_a c))"

text \<open>The string \<open>hsv(h, s%, v%)\<close>: saturation and value are percentages.\<close>

definition tinycolor_hsv_string :: "hsv \<Rightarrow> tinycolor" where
  "tinycolor_hsv_string c =
     (case hsvToRgb (bound01 (hsv_h c) 360) (bound01_percent (hsv_s c) 100)
             (bound01_percent (hsv_v c) 100) of
        (x, y, z) \<Rightarrow> mk_tinycolor x y z 1)"

text \<open>
  An object \<open>{h, s, v}\<close>: \<open>convertToPercentage\<close> reads a saturation or value of at most 1 as
  a fraction and turns it into a percentage string.
\<close>

definition convertToPercentage :: "rat \<Rightarrow> rat" where
  "convertToPercentage n = (if n \<le> 1 then bound01_percent (n * 100) 100 else bound01 n 100)"

definition tinycolor_hsv_object :: "hsv \<Rightarrow> tinycolor" where
  "tinycolor_hsv_object c =
     (case hsvToRgb (bound01 (hsv_h c) 360) (convertToPercentage (hsv_s c))
             (convertToPercentage (hsv_v c)) of
        (x, y, z) \<Rightarrow> mk_tinycolor x y z 1)"

text \<open>\<open>tinycolor(colorValue)\<close> on whatever the field \<open>value\<close> holds.\<close>

definition tinycolor_of :: "color_value \<Rightarrow> tinycolor" where
  "tinycolor_of cv =
     (case cv of
        StrV str \<Rightarrow> tinycolor_string str
      | RgbaV c \<Rightarrow> tinycolor_rgba c
      | HsvV c \<Rightarrow> tinycolor_hsv_object c)"

text \<open>\<open>Number.prototype.toString(16)\<close> on a natural number, and \<open>pad2\<close>.\<close>

definition hexDigitChar :: "nat \<Rightarrow> char" where
  "hexDigitChar n = ''0123456789abcdef'' ! (n mod 16)"

function toString16 :: "nat \<Rightarrow> string" where
  "toString16 n =
     (if n < 16 then [hexDigitChar n] else toString16 (n div 16) @ [hexDigitChar n])"
  by pat_completeness auto
termination
  by (relation "measure id") auto

definition pad2 :: "string \<Rightarrow> string" where
  "pad2 c = (if length c = 1 then CHR ''0'' # c else c)"

definition hexByte :: "rat \<Rightarrow> string" where
  "hexByte x = pad2 (toString16 (nat \<lfloor>Math_round x\<rfloor>))"

definition toHexString :: "tinycolor \<Rightarrow> string" where
  "toHexString t = CHR ''#'' # hexByte (tc_r t) @ hexByte (tc_g t) @ hexByte (tc_b t)"

definition toRgb :: "tinycolor \<Rightarrow> rgba" where
  "toRgb t =
     \<lparr>rgb_r = Math_round (tc_r t), rgb_g = Math_round (tc_g t),
      rgb_b = Math_round (tc_b t), rgb_a = tc_a t\<rparr>"

text \<open>\<open>toHsv\<close>: the hue in degrees, saturation and value as fractions of 1.\<close>

definition toHsv :: "tinycolor \<Rightarrow> hsv" where
  "toHsv t =
     (let c = rgbToHsv (tc_r t) (tc_g t) (tc_b t)
      in \<lparr>hsv_h = hsv_h c * 360, hsv_s = hsv_s c, hsv_v = hsv_v c\<rparr>)"

subsection \<open>The component state\<close>

text \<open>
  \<open>this.opts\<close>: what the host supplies on each render. An absent property is \<open>None\<close>. The
  object \<open>selectablecolorcode\<close> is a map from format to boolean; a missing key reads as
  \<open>undefined\<close>, which is falsy.
\<close>

type_synonym selectable = "color_code \<rightharpoonup> bool"

record opts =
  o_color :: "color option"
  o_selectablecolorcode :: "selectable option"
  o_hsv :: "hsv option"

record picker =
  opts :: opts
  color :: color
  selectableColorCode :: selectable
  latestValidHue :: rat
  lastValidColor :: string
  isCatcherActive :: bool

definition truthy :: "bool option \<Rightarrow> bool" where
  "truthy x = (x = Some True)"

definition default_selectable :: selectable where
  "default_selectable = [HEX \<mapsto> True, RGBA \<mapsto> True]"

definition default_color :: color where
  "default_color = \<lparr>format = HEX, cvalue = StrV ''''\<rparr>"

subsection \<open>The converter\<close>

definition convertColor ::
  "picker \<Rightarrow> color_code \<Rightarrow> color_value \<Rightarrow> color_code \<Rightarrow> error + color_value" where
  "convertColor st colorCode colorValue exportColorcode =
     (case
        (if colorCode = HEX then
           (case colorValue of
              StrV str \<Rightarrow>
                Inr (if isHex str then tinycolor_string str
                     else tinycolor_string (lastValidColor st))
            | _ \<Rightarrow> Inl TypeError)
         else if colorCode = HSV then
           Inr (case colorValue of
                  HsvV c \<Rightarrow> tinycolor_hsv_string c
                | _ \<Rightarrow> tinycolor_invalid)
         else Inr (tinycolor_of colorValue))
      of
        Inl e \<Rightarrow> Inl e
      | Inr colorObj \<Rightarrow>
          Inr (case exportColorcode of
                 HEX \<Rightarrow> StrV (toHexString colorObj)
               | RGBA \<Rightarrow> RgbaV (toRgb colorObj)
               | HSV \<Rightarrow> HsvV (toHsv colorObj)))"

text \<open>Sequencing of computations that may throw.\<close>

definition bind_err :: "error + 'a \<Rightarrow> ('a \<Rightarrow> error + 'b) \<Rightarrow> error + 'b" where
  "bind_err m f = (case m of Inl e \<Rightarrow> Inl e | Inr x \<Rightarrow> f x)"

text \<open>
  \<open>convertColor(format, value, COLOR_CODE.HSV)\<close> read as an \<open>{h, s, v}\<close> object. The
  converter returns such an object for this target (lemma \<open>convertColor_HSV\<close> below), so
  the last branch is never taken.
\<close>

definition convertToHsv :: "picker \<Rightarrow> color_code \<Rightarrow> color_value \<Rightarrow> error + hsv" where
  "convertToHsv st colorCode colorValue =
     (case convertColor st colorCode colorValue HSV of
        Inl e \<Rightarrow> Inl e
      | Inr (HsvV c) \<Rightarrow> Inr c
      | Inr _ \<Rightarrow> Inl TypeError)"

definition isMonochrome :: "picker \<Rightarrow> color_code \<Rightarrow> color_value \<Rightarrow> error + bool" where
  "isMonochrome st fmt val =
     bind_err (convertToHsv st fmt val) (\<lambda>c. Inr (hsv_s c = 0))"

subsection \<open>Initialisation and the update cycle\<close>

text \<open>
  The initialisation block of the script. The widening writes into the object the host
  passed as \<open>selectablecolorcode\<close>; the model keeps the component's view of it.
\<close>

definition init :: "opts \<Rightarrow> picker" where
  "init os =
     (let sel = (case o_selectablecolorcode os of Some m \<Rightarrow> m | None \<Rightarrow> default_selectable);
          c = (case o_color os of Some c \<Rightarrow> c | None \<Rightarrow> default_color);
          sel' = (if \<not> truthy (sel (format c)) then sel(format c \<mapsto> True) else sel)
      in \<lparr>opts = os, color = c, selectableColorCode = sel', latestValidHue = 0,
          lastValidColor = ''#000000'', isCatcherActive = False\<rparr>)"

text \<open>
  The handler of \<open>update\<close>, run after the host has replaced \<open>this.opts\<close>. The redrawing of
  the canvas (\<open>updateSpectrum\<close>) writes to no variable of the script and is left out.
\<close>

definition on_update :: "opts \<Rightarrow> picker \<Rightarrow> error + picker" where
  "on_update os st =
     (let sel = (case o_selectablecolorcode os of Some m \<Rightarrow> m | None \<Rightarrow> default_selectable);
          c = (case o_color os of Some c \<Rightarrow> c | None \<Rightarrow> default_color);
          st1 = st\<lparr>opts := os, selectableColorCode := sel, color := c\<rparr>
      in if format c = HEX then
           (case cvalue c of
              StrV str \<Rightarrow> Inr (if isHex str then st1\<lparr>lastValidColor := str\<rparr> else st1)
            | _ \<Rightarrow> Inl TypeError)
         else Inr st1)"

subsection \<open>\<open>getHsv\<close> and the coordinate mapper\<close>

definition getHsv :: "picker \<Rightarrow> error + hsv" where
  "getHsv st =
     (case o_hsv (opts st) of
        Some c \<Rightarrow> Inr c
      | None \<Rightarrow>
          bind_err (convertToHsv st (format (color st)) (cvalue (color st)))
            (\<lambda>c. Inr \<lparr>hsv_h = Math_round (hsv_h c),
                       hsv_s = (Math_round (hsv_s c * 100) / 100) * 100,
                       hsv_v = (Math_round (hsv_v c * 100) / 100) * 100\<rparr>))"

text \<open>\<open>getBoundingClientRect()\<close> of the canvas container.\<close>

record rect =
  rect_left :: rat
  rect_top :: rat
  rect_width :: rat
  rect_height :: rat

text \<open>
  The four clamping statements of \<open>getColorObject\<close>, on the rounded offsets \<open>x\<close> and \<open>y\<close>.
\<close>

definition clampX :: "rect \<Rightarrow> rat \<Rightarrow> rat" where
  "clampX containerRect x =
     (let x1 = (if x > rect_width containerRect then rect_width containerRect else x)
      in if x1 < 0 then 0 else x1)"

definition clampY :: "rect \<Rightarrow> rat \<Rightarrow> rat" where
  "clampY containerRect y =
     (let y1 = (if y > rect_height containerRect then rect_height containerRect else y)
      in if y1 < 0 then 1 / 10 else y1)"

text \<open>
  With a width or a height of 0 the quotients are \<open>0 / 0\<close> or \<open>0.1 / 0\<close>, and the
  JavaScript result holds \<open>NaN\<close> or an infinity.
\<close>

definition getColorObject :: "picker \<Rightarrow> rect \<Rightarrow> rat \<Rightarrow> rat \<Rightarrow> error + hsv" where
  "getColorObject st containerRect touchX touchY =
     (let x = clampX containerRect (Math_round (touchX - rect_left containerRect));
          y = clampY containerRect (Math_round (touchY - rect_top containerRect))
      in bind_err (getHsv st)
           (\<lambda>cur.
              if rect_width containerRect = 0 \<or> rect_height containerRect = 0
              then Inl NonFinite
              else Inr \<lparr>hsv_h = hsv_h cur,
                        hsv_s = Math_round (x / rect_width containerRect * 100),
                        hsv_v = 100 - Math_round (y / rect_height containerRect * 100)\<rparr>))"

subsection \<open>Pointer and slider handlers\<close>

text \<open>
  A handler returns the state after it and what it passed to \<open>oncolorchange\<close>: the colour
  and, where given, the HSV triple.
\<close>

type_synonym emitted = "color \<times> hsv option"

text \<open>
  The statements that \<open>handleCanvasMouseDown\<close>, \<open>handleCatcherMouseMove\<close> and
  \<open>handleCatcherMouseUp\<close> share word for word.
\<close>

definition pickAt :: "picker \<Rightarrow> rect \<Rightarrow> rat \<Rightarrow> rat \<Rightarrow> error + picker \<times> emitted" where
  "pickAt st containerRect pageX pageY =
     bind_err (getColorObject st containerRect pageX pageY)
       (\<lambda>c. bind_err (convertColor st HSV (HsvV c) (format (color st)))
          (\<lambda>val. let col = \<lparr>format = format (color st), cvalue = val\<rparr>
                  in bind_err (isMonochrome st (format col) (cvalue col))
                       (\<lambda>mono. Inr (if \<not> mono then st\<lparr>latestValidHue := hsv_h c\<rparr> else st,
                                     (col, Some c)))))"

definition handleCanvasMouseDown ::
  "picker \<Rightarrow> rect \<Rightarrow> rat \<Rightarrow> rat \<Rightarrow> error + picker \<times> emitted" where
  "handleCanvasMouseDown st containerRect pageX pageY =
     pickAt (st\<lparr>isCatcherActive := True\<rparr>) containerRect pageX pageY"

definition handleCatcherMouseMove ::
  "picker \<Rightarrow> rect \<Rightarrow> rat \<Rightarrow> rat \<Rightarrow> error + picker \<times> emitted option" where
  "handleCatcherMouseMove st containerRect pageX pageY =
     (if \<not> isCatcherActive st then Inr (st, None)
      else bind_err (pickAt st containerRect pageX pageY) (\<lambda>(st', e). Inr (st', Some e)))"

definition handleCatcherMouseUp ::
  "picker \<Rightarrow> rect \<Rightarrow> rat \<Rightarrow> rat \<Rightarrow> error + picker \<times> emitted" where
  "handleCatcherMouseUp st containerRect pageX pageY =
     pickAt (st\<lparr>isCatcherActive := False\<rparr>) containerRect pageX pageY"

definition handleHueSliderChange :: "picker \<Rightarrow> rat \<Rightarrow> error + picker \<times> emitted" where
  "handleHueSliderChange st hue =
     bind_err (convertToHsv st (format (color st)) (cvalue (color st)))
       (\<lambda>c0. let c = \<lparr>hsv_h = hue, hsv_s = Math_round (hsv_s c0 * 100),
                       hsv_v = Math_round (hsv_v c0 * 100)\<rparr>
              in bind_err (convertColor st HSV (HsvV c) (format (color st)))
                   (\<lambda>colorValue.
                      Inr (st, (\<lparr>format = format (color st), cvalue = colorValue\<rparr>, Some c))))"

subsection \<open>The format cycler\<close>

definition format_order :: "color_code list" where
  "format_order = [HEX, RGBA]"

text \<open>\<open>Array.prototype.indexOf\<close>: the first position of the element, or \<open>-1\<close>.\<close>

fun indexOf :: "'a list \<Rightarrow> 'a \<Rightarrow> int" where
  "indexOf [] x = - 1"
| "indexOf (y # ys) x =
     (if y = x then 0 else (let i = indexOf ys x in if i = - 1 then - 1 else i + 1))"

text \<open>
  \<open>selectableColorCode[order[index]]\<close> read as a condition. Past the end of the array
  \<open>order[index]\<close> is \<open>undefined\<close>, and so is the property read with it.
\<close>

definition selectableAt :: "selectable \<Rightarrow> nat \<Rightarrow> bool" where
  "selectableAt sel index =
     (index < length format_order \<and> truthy (sel (format_order ! index)))"

text \<open>
  The \<open>do \<dots> while\<close> loop. It is defined as a partial function: where the loop runs
  forever the value is \<open>None\<close>.
\<close>

partial_function (option) cycleIndex :: "selectable \<Rightarrow> nat \<Rightarrow> nat option" where
  "cycleIndex sel index =
     (let index' = (if index \<noteq> length format_order - 1 then index + 1 else 0)
      in if \<not> selectableAt sel index' then cycleIndex sel index' else Some index')"

definition handleColorChangeButtonTap :: "picker \<Rightarrow> (error + color) option" where
  "handleColorChangeButtonTap st =
     (let index = indexOf format_order (format (color st))
      in if index \<noteq> - 1 then
           (case cycleIndex (selectableColorCode st) (nat index) of
              None \<Rightarrow> None
            | Some i \<Rightarrow>
                Some (bind_err
                  (convertColor st (format (color st)) (cvalue (color st)) (format_order ! i))
                  (\<lambda>val. Inr \<lparr>format = format_order ! i, cvalue = val\<rparr>)))
         else Some (Inr default_color))"

subsection \<open>Displayed values and the hex field\<close>


text \<open>
  \<open>normalizeHexValue\<close>. The argument is the text of the input field, a string, so the two
  tests for \<open>null\<close> and \<open>undefined\<close> never fire. The fallback is read from
  \<open>this.opts.color\<close>, which throws when the host passed no colour.
\<close>

definition normalizeHexValue :: "picker \<Rightarrow> string \<Rightarrow> error + color_value" where
  "normalizeHexValue st raw =
     (let v1 = replaceFullWidthSpace raw;
          v2 = (if isHex v1 then concatenatePoundKey v1 else v1)
      in if \<not> isTypingHex v2 then
           (case o_color (opts st) of
              None \<Rightarrow> Inl TypeError
            | Some c \<Rightarrow> Inr (cvalue c))
         else Inr (StrV v2))"

definition handleInputHexInput :: "picker \<Rightarrow> string \<Rightarrow> error + picker \<times> emitted" where
  "handleInputHexInput st raw =
     bind_err (normalizeHexValue st raw)
       (\<lambda>newColor. Inr (st, (\<lparr>format = format (color st), cvalue = newColor\<rparr>, None)))"

subsection \<open>Handlers that write through object references\<close>

text \<open>
  \<open>handleAlphaSliderChange\<close> and the four RGBA text-input handlers assign to properties
  of objects they did not create. For them the colour objects live in a store: a colour
  object \<open>{format, value}\<close> and an object \<open>{r, g, b, a}\<close> are each held at a reference,
  and the field \<open>value\<close> is a string or a reference to an \<open>{r, g, b, a}\<close> object.
  \<open>this.color\<close> is a reference; the variables of the script (\<open>lastValidColor\<close>) are read
  from the \<open>picker\<close> argument. A handler returns the store after it and the reference it
  passed to \<open>oncolorchange\<close>.
\<close>

type_synonym ref = nat

datatype jsvalue = Str string | Obj ref

record color_obj =
  obj_format :: color_code
  obj_value :: jsvalue

record store =
  color_objs :: "ref \<rightharpoonup> color_obj"
  rgba_objs :: "ref \<rightharpoonup> rgba"
  next_ref :: ref

definition read_value :: "store \<Rightarrow> jsvalue \<Rightarrow> color_value option" where
  "read_value h v =
     (case v of Str str \<Rightarrow> Some (StrV str) | Obj q \<Rightarrow> map_option RgbaV (rgba_objs h q))"

text \<open>What a reader of the object at a reference sees.\<close>

definition read_color :: "store \<Rightarrow> ref \<Rightarrow> color option" where
  "read_color h p =
     (case color_objs h p of
        None \<Rightarrow> None
      | Some c \<Rightarrow>
          map_option (\<lambda>v. \<lparr>format = obj_format c, cvalue = v\<rparr>) (read_value h (obj_value c)))"

text \<open>
  \<open>handleAlphaSliderChange\<close>. \<open>color\<close> is \<open>this.color\<close> itself, so the assignment to
  \<open>color.format\<close> is seen by the read of \<open>this.color.format\<close> in the next statement.
  \<open>toRgb\<close> returns a new object. Assigning a property on a string throws in a module
  (strict mode).
\<close>

definition handleAlphaSliderChange ::
  "picker \<Rightarrow> store \<Rightarrow> ref \<Rightarrow> rat \<Rightarrow> error + store \<times> ref" where
  "handleAlphaSliderChange st h this_color alpha =
     (case color_objs h this_color of
        None \<Rightarrow> Inl TypeError
      | Some c \<Rightarrow>
          bind_err
            (if obj_format c \<noteq> RGBA then
               (let c1 = c\<lparr>obj_format := RGBA\<rparr>;
                    h1 = h\<lparr>color_objs := (color_objs h)(this_color \<mapsto> c1)\<rparr>
                in case read_value h1 (obj_value c1) of
                     None \<Rightarrow> Inl TypeError
                   | Some v \<Rightarrow>
                       bind_err (convertColor st (obj_format c1) v RGBA)
                         (\<lambda>res. case res of
                            RgbaV x \<Rightarrow>
                              (let q = next_ref h1
                               in Inr (h1\<lparr>rgba_objs := (rgba_objs h1)(q \<mapsto> x),
                                          color_objs :=
                                            (color_objs h1)(this_color \<mapsto> c1\<lparr>obj_value := Obj q\<rparr>),
                                          next_ref := Suc q\<rparr>))
                          | _ \<Rightarrow> Inl TypeError))
             else Inr h)
            (\<lambda>h2. case color_objs h2 this_color of
                     None \<Rightarrow> Inl TypeError
                   | Some c2 \<Rightarrow>
                       (case obj_value c2 of
                          Str _ \<Rightarrow> Inl TypeError
                        | Obj q \<Rightarrow>
                            (case rgba_objs h2 q of
                               None \<Rightarrow> Inl TypeError
                             | Some x \<Rightarrow>
                                 Inr (h2\<lparr>rgba_objs :=
                                           (rgba_objs h2)(q \<mapsto> x\<lparr>rgb_a := alpha / 100\<rparr>)\<rparr>,
                                      this_color)))))"

text \<open>
  The RGBA text-input handlers: a new object \<open>{format, value}\<close> whose \<open>value\<close> is the
  stored colour's \<open>value\<close>, then \<open>objectAssign(color.value, {\<dots>})\<close>. The argument is
  \<open>None\<close> for an empty field; \<open>value || 0\<close> also turns a typed 0 into 0. On a string
  \<open>objectAssign\<close> writes to a wrapper object and the string is unchanged.
\<close>

definition inputChannel ::
  "(rat \<Rightarrow> rgba \<Rightarrow> rgba) \<Rightarrow> store \<Rightarrow> ref \<Rightarrow> rat option \<Rightarrow> error + store \<times> ref" where
  "inputChannel assign h this_color inp =
     (case color_objs h this_color of
        None \<Rightarrow> Inl TypeError
      | Some c \<Rightarrow>
          (let colorValue = (case inp of None \<Rightarrow> 0 | Some n \<Rightarrow> n);
               p = next_ref h;
               h1 = h\<lparr>color_objs :=
                        (color_objs h)(p \<mapsto> \<lparr>obj_format = obj_format c, obj_value = obj_value c\<rparr>),
                      next_ref := Suc p\<rparr>
           in case obj_value c of
                Str _ \<Rightarrow> Inr (h1, p)
              | Obj q \<Rightarrow>
                  (case rgba_objs h1 q of
                     None \<Rightarrow> Inl TypeError
                   | Some x \<Rightarrow>
                       Inr (h1\<lparr>rgba_objs := (rgba_objs h1)(q \<mapsto> assign colorValue x)\<rparr>, p))))"

definition handleInputRgbaRedInput :: "store \<Rightarrow> ref \<Rightarrow> rat option \<Rightarrow> error + store \<times> ref" where
  "handleInputRgbaRedInput = inputChannel (\<lambda>n x. x\<lparr>rgb_r := n\<rparr>)"

definition handleInputRgbaGreenInput :: "store \<Rightarrow> ref \<Rightarrow> rat option \<Rightarrow> error + store \<times> ref" where
  "handleInputRgbaGreenInput = inputChannel (\<lambda>n x. x\<lparr>rgb_g := n\<rparr>)"

definition handleInputRgbaBlueInput :: "store \<Rightarrow> ref \<Rightarrow> rat option \<Rightarrow> error + store \<times> ref" where
  "handleInputRgbaBlueInput = inputChannel (\<lambda>n x. x\<lparr>rgb_b := n\<rparr>)"

text \<open>
  The alpha field stores the decimal string of \<open>value / 100\<close>; it is kept as the number it
  denotes.
\<close>

definition handleInputAlphaInput :: "store \<Rightarrow> ref \<Rightarrow> rat option \<Rightarrow> error + store \<times> ref" where
  "handleInputAlphaInput = inputChannel (\<lambda>n x. x\<lparr>rgb_a := n / 100\<rparr>)"

subsection \<open>States for the examples\<close>

text \<open>The script right after initialisation without options.\<close>

definition st0 :: picker where
  "st0 = init \<lparr>o_color = None, o_selectablecolorcode = None, o_hsv = None\<rparr>"


text \<open>A container 200 by 100 at the origin, and one whose width is not a whole number.\<close>

definition spectrum_rect :: rect where
  "spectrum_rect = \<lparr>rect_left = 0, rect_top = 0, rect_width = 200, rect_height = 100\<rparr>"

definition narrow_rect :: rect where
  "narrow_rect = \<lparr>rect_left = 0, rect_top = 0, rect_width = 52 / 5, rect_height = 100\<rparr>"

text \<open>Only HEX is selectable, and the current colour is a HEX string.\<close>

definition st_hex_only :: picker where
  "st_hex_only =
     st0\<lparr>color := \<lparr>format = HEX, cvalue = StrV ''#ff0000''\<rparr>,
         selectableColorCode := [HEX \<mapsto> True, RGBA \<mapsto> False]\<rparr>"

text \<open>
  Options a host can pass: an RGBA colour while only HEX is declared selectable; and a HEX
  colour with an empty \<open>selectablecolorcode\<close> object.
\<close>

definition opts_rgba_hex_only :: opts where
  "opts_rgba_hex_only =
     \<lparr>o_color = Some \<lparr>format = RGBA,
                       cvalue = RgbaV \<lparr>rgb_r = 255, rgb_g = 0, rgb_b = 0, rgb_a = 1\<rparr>\<rparr>,
      o_selectablecolorcode = Some [HEX \<mapsto> True, RGBA \<mapsto> False],
      o_hsv = None\<rparr>"

definition opts_none_selectable :: opts where
  "opts_none_selectable =
     \<lparr>o_color = Some \<lparr>format = HEX, cvalue = StrV ''#ff0000''\<rparr>,
      o_selectablecolorcode = Some Map.empty,
      o_hsv = None\<rparr>"


text \<open>The UTF-8 bytes of the full-width space U+3000.\<close>

definition fullWidthSpace :: string where
  "fullWidthSpace = [CHR 0xE3, CHR 0x80, CHR 0x80]"

text \<open>The host passed the HEX colour \<open>#123456\<close>, which is the current colour.\<close>

definition st_typed :: picker where
  "st_typed =
     st0\<lparr>opts := \<lparr>o_color = Some \<lparr>format = HEX, cvalue = StrV ''#123456''\<rparr>,
                  o_selectablecolorcode = None, o_hsv = None\<rparr>,
         color := \<lparr>format = HEX, cvalue = StrV ''#123456''\<rparr>\<rparr>"

text \<open>
  The current colour is the HEX string \<open>#00ff00\<close>, whose hue is 120; no pointer has yet
  recorded a hue.
\<close>

definition st_green :: picker where
  "st_green =
     st0\<lparr>color := \<lparr>format = HEX, cvalue = StrV ''#00ff00''\<rparr>, lastValidColor := ''#00ff00''\<rparr>"

text \<open>
  Stores: one in which \<open>this.color\<close> (reference 0) is the HEX string \<open>#ff0000\<close>, one in
  which the hex field has been cleared, and one in which \<open>this.color\<close> is an RGBA colour
  whose value is the object at reference 1.
\<close>

definition store_hex :: store where
  "store_hex =
     \<lparr>color_objs = [0 \<mapsto> \<lparr>obj_format = HEX, obj_value = Str ''#ff0000''\<rparr>],
      rgba_objs = Map.empty, next_ref = 1\<rparr>"

definition store_cleared :: store where
  "store_cleared =
     \<lparr>color_objs = [0 \<mapsto> \<lparr>obj_format = HEX, obj_value = Str []\<rparr>],
      rgba_objs = Map.empty, next_ref = 1\<rparr>"

definition store_rgba :: store where
  "store_rgba =
     \<lparr>color_objs = [0 \<mapsto> \<lparr>obj_format = RGBA, obj_value = Obj 1\<rparr>],
      rgba_objs = [1 \<mapsto> \<lparr>rgb_r = 10, rgb_g = 20, rgb_b = 30, rgb_a = 1\<rparr>],
      next_ref = 2\<rparr>"

text \<open>
  The host passed \<open>#ff0000\<close> on one update and the cleared hex field on the next: the
  current colour is the empty HEX string and the last valid colour is red.
\<close>

definition st_cleared :: picker where
  "st_cleared = st0\<lparr>lastValidColor := ''#ff0000''\<rparr>"

section \<open>Properties\<close>

subsection \<open>Evaluation lemmas\<close>

lemma floor_rat_numeral [simp]:
  "\<lfloor>numeral p / numeral q :: rat\<rfloor> = numeral p div numeral q"
  by (metis floor_divide_of_int_eq of_int_numeral)

lemma floor_rat_one [simp]: "\<lfloor>1 / numeral q :: rat\<rfloor> = 1 div numeral q"
  by (metis floor_divide_of_int_eq of_int_1 of_int_numeral)

lemma floor_rat_minus_numeral [simp]:
  "\<lfloor>- (numeral p / numeral q) :: rat\<rfloor> = - numeral p div numeral q"
  by (metis divide_minus_left floor_divide_of_int_eq of_int_neg_numeral of_int_numeral)

lemma floor_rat_minus_one [simp]: "\<lfloor>- (1 / numeral q) :: rat\<rfloor> = - 1 div numeral q"
  by (metis divide_minus_left floor_divide_of_int_eq of_int_1 of_int_minus of_int_numeral)

lemmas tinycolor_defs =
  tinycolor_string_def dropPound_def isHexDigit_def parseIntFromHex_def hexDigitValue_def
  rgbToRgb_def bound01_def bound01_percent_def mk_tinycolor_def channel_def boundAlpha_def
  hexPair_def hexTwice_def tinycolor_invalid_def Math_round_def tinycolor_rgba_def
  tinycolor_hsv_string_def tinycolor_hsv_object_def convertToPercentage_def tinycolor_of_def
  hsvToRgb_def rgbToHsv_def toHsv_def toRgb_def toHexString_def hexByte_def pad2_def
  hexDigitChar_def

lemmas converter_defs =
  convertColor_def convertToHsv_def isMonochrome_def bind_err_def isHex_def

lemma st0_eq:
  "st0 = \<lparr>opts = \<lparr>o_color = None, o_selectablecolorcode = None, o_hsv = None\<rparr>,
          color = default_color, selectableColorCode = default_selectable,
          latestValidHue = 0, lastValidColor = ''#000000'', isCatcherActive = False\<rparr>"
  by (simp add: st0_def init_def default_color_def default_selectable_def truthy_def)

subsection \<open>The converter\<close>

lemma convertColor_HSV:
  "convertColor st colorCode colorValue HSV = Inr r \<Longrightarrow> \<exists>c. r = HsvV c"
  by (auto simp: convertColor_def split: if_splits color_value.splits sum.splits)

lemma convertToHsv_no_error:
  "colorCode = HEX \<longrightarrow> (\<exists>str. colorValue = StrV str)
   \<Longrightarrow> \<exists>c. convertToHsv st colorCode colorValue = Inr c"
  by (auto simp: convertToHsv_def convertColor_def split: color_value.splits)





subsection \<open>The alpha percentage\<close>



subsection \<open>The coordinate mapper\<close>

lemma Math_round_mono: "x \<le> y \<Longrightarrow> Math_round x \<le> Math_round y"
  by (simp add: Math_round_def floor_mono)

lemma Math_round_nonneg: "0 \<le> x \<Longrightarrow> 0 \<le> Math_round x"
  by (simp add: Math_round_def)

lemma Math_round_nonpos: "x < 0 \<Longrightarrow> Math_round x \<le> 0"
proof -
  assume "x < 0"
  then have "x + 1 / 2 < of_int 0 + 1" by simp
  then have "\<lfloor>x + 1 / 2\<rfloor> \<le> 0" by (simp only: floor_le_iff)
  then show ?thesis by (simp add: Math_round_def)
qed

lemma Math_round_le_100: "x \<le> 100 \<Longrightarrow> Math_round x \<le> 100"
proof -
  assume "x \<le> 100"
  then have "x + 1 / 2 < of_int 100 + 1" by simp
  then have "\<lfloor>x + 1 / 2\<rfloor> \<le> 100" by (simp only: floor_le_iff)
  then have "(of_int \<lfloor>x + 1 / 2\<rfloor> :: rat) \<le> of_int 100" by (simp only: of_int_le_iff)
  then show ?thesis by (simp add: Math_round_def)
qed

lemma Math_round_0: "Math_round 0 = 0"
  by (simp add: Math_round_def)

lemma percent_bounds:
  assumes "0 < w" "0 \<le> x" "x \<le> w"
  shows "0 \<le> Math_round (x / w * 100) \<and> Math_round (x / w * 100) \<le> 100"
proof -
  have lo: "0 \<le> x / w * 100"
    by (intro mult_nonneg_nonneg divide_nonneg_pos) (use assms in auto)
  from assms have "x / w \<le> 1" by simp
  then have "x / w * 100 \<le> 1 * 100" by (rule mult_right_mono) simp
  then have hi: "x / w * 100 \<le> 100" by simp
  from lo hi show ?thesis by (simp only: Math_round_nonneg Math_round_le_100)
qed

lemma clampX_range: "0 \<le> rect_width r \<Longrightarrow> 0 \<le> clampX r x \<and> clampX r x \<le> rect_width r"
  by (simp add: clampX_def Let_def)

lemma clampX_left: "0 \<le> rect_width r \<Longrightarrow> x \<le> 0 \<Longrightarrow> clampX r x = 0"
  by (simp add: clampX_def Let_def)

lemma clampX_right: "0 \<le> rect_width r \<Longrightarrow> rect_width r \<le> x \<Longrightarrow> clampX r x = rect_width r"
  by (simp add: clampX_def Let_def)

text \<open>
  Claim C3, as amended. With a height of at least 0 the clamp of the rounded vertical
  offset \<open>y\<close> replaces a negative \<open>y\<close> by 0.1 and a \<open>y\<close> above the height by the height, and
  leaves every \<open>y\<close> of the interval from 0 to the height as it is: the result is at least 0
  and at most the larger of the height and 0.1.
\<close>

theorem clampY_cases:
  "0 \<le> rect_height r \<Longrightarrow>
     (y < 0 \<longrightarrow> clampY r y = 1 / 10) \<and>
     (0 \<le> y \<and> y \<le> rect_height r \<longrightarrow> clampY r y = y) \<and>
     (rect_height r < y \<longrightarrow> clampY r y = rect_height r) \<and>
     0 \<le> clampY r y \<and> clampY r y \<le> max (rect_height r) (1 / 10)"
  by (auto simp: clampY_def Let_def le_max_iff_disj)

theorem clampY_cases_witness:
  "clampY spectrum_rect (- 3) = 1 / 10 \<and> clampY spectrum_rect 40 = 40 \<and>
   clampY spectrum_rect 101 = 100 \<and> clampY spectrum_rect 0 = 0"
  using clampY_cases [of spectrum_rect "- 3"] clampY_cases [of spectrum_rect 40]
    clampY_cases [of spectrum_rect 101] clampY_cases [of spectrum_rect 0]
  by (simp add: spectrum_rect_def)

text \<open>
  The claim as stated fails at the top edge: with the pointer at \<open>rect.top\<close> the offset is
  0, the test \<open>y < 0\<close> is false, and the effective \<open>y\<close> is 0, which is below 0.1.
\<close>

theorem clampY_top_edge_counterexample:
  "clampY spectrum_rect (Math_round (rect_top spectrum_rect - rect_top spectrum_rect)) = 0 \<and>
   \<not> 1 / 10 \<le> clampY spectrum_rect
       (Math_round (rect_top spectrum_rect - rect_top spectrum_rect))"
  by (simp add: clampY_def spectrum_rect_def Math_round_def)

lemma clampY_range:
  "0 \<le> rect_height r \<Longrightarrow> 0 \<le> y \<Longrightarrow> 0 \<le> clampY r y \<and> clampY r y \<le> rect_height r"
  by (simp add: clampY_def Let_def)

lemma getHsv_no_error:
  "format (color st) = HEX \<longrightarrow> (\<exists>str. cvalue (color st) = StrV str)
   \<Longrightarrow> \<exists>c. getHsv st = Inr c"
  using convertToHsv_no_error [of "format (color st)" "cvalue (color st)" st]
  by (auto simp: getHsv_def bind_err_def split: option.splits)

lemma getColorObject_Inr:
  "getHsv st = Inr cur \<Longrightarrow> rect_width r \<noteq> 0 \<Longrightarrow> rect_height r \<noteq> 0 \<Longrightarrow>
   getColorObject st r touchX touchY =
     Inr \<lparr>hsv_h = hsv_h cur,
          hsv_s = Math_round (clampX r (Math_round (touchX - rect_left r)) / rect_width r * 100),
          hsv_v = 100 - Math_round
                    (clampY r (Math_round (touchY - rect_top r)) / rect_height r * 100)\<rparr>"
  by (simp add: getColorObject_def bind_err_def)

lemma getColorObject_cong_x:
  "clampX r (Math_round (x1 - rect_left r)) = clampX r (Math_round (x2 - rect_left r)) \<Longrightarrow>
   getColorObject st r x1 touchY = getColorObject st r x2 touchY"
  by (simp add: getColorObject_def)

text \<open>
  Claim C9, as amended. For a container of positive width and height and a well-formed
  current colour: a pointer inside the container gives a saturation and a brightness
  between 0 and 100; a pointer left of the container gives the colour of the left edge;
  and a pointer right of the container gives the colour of the right edge whenever the
  width does not exceed its own rounding (a whole number of pixels, for one).
\<close>

theorem getColorObject_clamped:
  assumes "0 < rect_width r" and "0 < rect_height r"
    and "format (color st) = HEX \<longrightarrow> (\<exists>str. cvalue (color st) = StrV str)"
  shows
    "(0 \<le> touchX - rect_left r \<and> touchX - rect_left r \<le> rect_width r \<and>
      0 \<le> touchY - rect_top r \<and> touchY - rect_top r \<le> rect_height r \<longrightarrow>
        (\<exists>c. getColorObject st r touchX touchY = Inr c \<and>
             0 \<le> hsv_s c \<and> hsv_s c \<le> 100 \<and> 0 \<le> hsv_v c \<and> hsv_v c \<le> 100)) \<and>
     (touchX - rect_left r < 0 \<longrightarrow>
        getColorObject st r touchX touchY = getColorObject st r (rect_left r) touchY) \<and>
     (rect_width r < touchX - rect_left r \<and> rect_width r \<le> Math_round (rect_width r) \<longrightarrow>
        getColorObject st r touchX touchY
          = getColorObject st r (rect_left r + rect_width r) touchY)"
proof (intro conjI impI)
  assume inside:
    "0 \<le> touchX - rect_left r \<and> touchX - rect_left r \<le> rect_width r \<and>
     0 \<le> touchY - rect_top r \<and> touchY - rect_top r \<le> rect_height r"
  from assms(3) obtain cur where cur: "getHsv st = Inr cur"
    using getHsv_no_error by blast
  let ?x = "clampX r (Math_round (touchX - rect_left r))"
  let ?y = "clampY r (Math_round (touchY - rect_top r))"
  have x: "0 \<le> ?x \<and> ?x \<le> rect_width r"
    using assms(1) by (simp add: clampX_range)
  have "0 \<le> Math_round (touchY - rect_top r)"
    using inside by (simp add: Math_round_nonneg)
  then have y: "0 \<le> ?y \<and> ?y \<le> rect_height r"
    using assms(2) by (simp add: clampY_range)
  have s: "0 \<le> Math_round (?x / rect_width r * 100) \<and> Math_round (?x / rect_width r * 100) \<le> 100"
    using percent_bounds [OF assms(1)] x by blast
  have v: "0 \<le> Math_round (?y / rect_height r * 100) \<and> Math_round (?y / rect_height r * 100) \<le> 100"
    using percent_bounds [OF assms(2)] y by blast
  have "getColorObject st r touchX touchY =
          Inr \<lparr>hsv_h = hsv_h cur, hsv_s = Math_round (?x / rect_width r * 100),
               hsv_v = 100 - Math_round (?y / rect_height r * 100)\<rparr>"
    using cur assms(1,2) by (simp add: getColorObject_Inr)
  with s v show
    "\<exists>c. getColorObject st r touchX touchY = Inr c \<and>
         0 \<le> hsv_s c \<and> hsv_s c \<le> 100 \<and> 0 \<le> hsv_v c \<and> hsv_v c \<le> 100"
    by simp
next
  assume "touchX - rect_left r < 0"
  then have "Math_round (touchX - rect_left r) \<le> 0" by (rule Math_round_nonpos)
  then have "clampX r (Math_round (touchX - rect_left r)) = 0"
    using assms(1) by (simp add: clampX_left)
  moreover have "clampX r (Math_round (rect_left r - rect_left r)) = 0"
    using assms(1) by (simp add: clampX_left Math_round_0)
  ultimately show "getColorObject st r touchX touchY = getColorObject st r (rect_left r) touchY"
    by (intro getColorObject_cong_x) simp
next
  assume right: "rect_width r < touchX - rect_left r \<and> rect_width r \<le> Math_round (rect_width r)"
  then have "Math_round (rect_width r) \<le> Math_round (touchX - rect_left r)"
    by (simp add: Math_round_mono)
  with right have "rect_width r \<le> Math_round (touchX - rect_left r)" by simp
  then have "clampX r (Math_round (touchX - rect_left r)) = rect_width r"
    using assms(1) by (simp add: clampX_right)
  moreover have "clampX r (Math_round (rect_left r + rect_width r - rect_left r)) = rect_width r"
    using assms(1) right by (simp add: clampX_right)
  ultimately show
    "getColorObject st r touchX touchY = getColorObject st r (rect_left r + rect_width r) touchY"
    by (intro getColorObject_cong_x) simp
qed

lemma getHsv_st0: "getHsv st0 = Inr \<lparr>hsv_h = 0, hsv_s = 0, hsv_v = 0\<rparr>"
  by (simp add: getHsv_def converter_defs st0_eq default_color_def dropPound_def tinycolor_defs)

theorem getColorObject_clamped_witness:
  "getColorObject st0 spectrum_rect 50 25 = Inr \<lparr>hsv_h = 0, hsv_s = 25, hsv_v = 75\<rparr> \<and>
   getColorObject st0 spectrum_rect (- 7) 25 = getColorObject st0 spectrum_rect 0 25 \<and>
   getColorObject st0 spectrum_rect 230 25 = getColorObject st0 spectrum_rect 200 25 \<and>
   getColorObject st0 spectrum_rect 230 25 = Inr \<lparr>hsv_h = 0, hsv_s = 100, hsv_v = 75\<rparr>"
proof -
  have wf: "format (color st0) = HEX \<longrightarrow> (\<exists>str. cvalue (color st0) = StrV str)"
    by (simp add: st0_eq default_color_def)
  have w: "0 < rect_width spectrum_rect" and h: "0 < rect_height spectrum_rect"
    by (simp_all add: spectrum_rect_def)
  have whole: "rect_width spectrum_rect \<le> Math_round (rect_width spectrum_rect)"
    by (simp add: spectrum_rect_def Math_round_def)
  have a: "getColorObject st0 spectrum_rect 50 25 = Inr \<lparr>hsv_h = 0, hsv_s = 25, hsv_v = 75\<rparr>"
    by (simp add: getColorObject_def bind_err_def getHsv_st0 spectrum_rect_def clampX_def
        clampY_def Math_round_def)
  have b: "getColorObject st0 spectrum_rect 230 25 = Inr \<lparr>hsv_h = 0, hsv_s = 100, hsv_v = 75\<rparr>"
    by (simp add: getColorObject_def bind_err_def getHsv_st0 spectrum_rect_def clampX_def
        clampY_def Math_round_def)
  show ?thesis
    using getColorObject_clamped [OF w h wf, of "- 7" 25]
      getColorObject_clamped [OF w h wf, of 230 25] whole a b
    by (simp add: spectrum_rect_def)
qed

text \<open>
  The claim as stated fails for a container whose width is not a whole number: the offset
  is rounded before it is clamped, so at the right edge of a container 10.4 wide the offset
  is 10 and the saturation 96, while any pointer further right is clamped to 10.4 and gives
  100.
\<close>

theorem getColorObject_right_edge_counterexample:
  "rect_width narrow_rect < 11 - rect_left narrow_rect \<and>
   getColorObject st0 narrow_rect 11 0 = Inr \<lparr>hsv_h = 0, hsv_s = 100, hsv_v = 100\<rparr> \<and>
   getColorObject st0 narrow_rect (rect_left narrow_rect + rect_width narrow_rect) 0
     = Inr \<lparr>hsv_h = 0, hsv_s = 96, hsv_v = 100\<rparr>"
  by (simp add: getColorObject_def bind_err_def getHsv_st0 narrow_rect_def clampX_def
      clampY_def Math_round_def)

subsection \<open>The format cycler\<close>

lemma cycleIndex_from_HEX:
  "truthy (sel HEX) \<Longrightarrow> cycleIndex sel 0 = Some (if truthy (sel RGBA) then 1 else 0)"
  by (subst cycleIndex.simps, simp add: format_order_def selectableAt_def,
      subst cycleIndex.simps, simp add: format_order_def selectableAt_def)

lemma cycleIndex_from_RGBA:
  "truthy (sel RGBA) \<Longrightarrow> cycleIndex sel (Suc 0) = Some (if truthy (sel HEX) then 0 else 1)"
  by (subst cycleIndex.simps, simp add: format_order_def selectableAt_def,
      subst cycleIndex.simps, simp add: format_order_def selectableAt_def)

text \<open>Whatever the loop returns is the index of a selectable format.\<close>

lemma cycleIndex_selectable: "cycleIndex sel i = Some y \<Longrightarrow> selectableAt sel y"
proof (rule cycleIndex.raw_induct [where P = "\<lambda>sel i y. selectableAt sel y"], goal_cases)
  case (1 f sel' index y')
  then show ?case
    by (auto simp: Let_def split: if_splits)
qed

text \<open>When no format of the order is selectable the loop never ends.\<close>

lemma cycleIndex_diverges:
  assumes "\<not> truthy (sel HEX)" and "\<not> truthy (sel RGBA)"
  shows "cycleIndex sel i = None"
proof (cases "cycleIndex sel i")
  case None
  then show ?thesis .
next
  case (Some y)
  then have "selectableAt sel y" by (rule cycleIndex_selectable)
  then have "y < 2" and "truthy (sel (format_order ! y))"
    by (simp_all add: selectableAt_def format_order_def)
  then have "y = 0 \<or> y = 1" by auto
  with \<open>truthy (sel (format_order ! y))\<close> assms show ?thesis
    by (auto simp: format_order_def)
qed

lemma indexOf_format_order:
  "indexOf format_order HEX = 0" "indexOf format_order RGBA = 1" "indexOf format_order HSV = - 1"
  by (simp_all add: format_order_def)

text \<open>
  Claim C2. Whenever the current format is one of the priority order and is selectable,
  \<open>handleColorChangeButtonTap\<close> returns. With only HEX selectable and the current colour a
  HEX string, it emits a colour of format HEX whose value is what the converter gives for
  the current value.
\<close>

theorem handleColorChangeButtonTap_terminates:
  "(format (color st) \<in> set format_order \<and>
    truthy (selectableColorCode st (format (color st))) \<longrightarrow>
      (\<exists>r. handleColorChangeButtonTap st = Some r)) \<and>
   (color st = \<lparr>format = HEX, cvalue = StrV str\<rparr> \<and>
    selectableColorCode st = [HEX \<mapsto> True, RGBA \<mapsto> False] \<longrightarrow>
      (\<exists>v. convertColor st HEX (StrV str) HEX = Inr v \<and>
           handleColorChangeButtonTap st = Some (Inr \<lparr>format = HEX, cvalue = v\<rparr>)))"
proof (intro conjI impI)
  assume a: "format (color st) \<in> set format_order \<and>
    truthy (selectableColorCode st (format (color st)))"
  then consider "format (color st) = HEX" | "format (color st) = RGBA"
    by (auto simp: format_order_def)
  then show "\<exists>r. handleColorChangeButtonTap st = Some r"
  proof cases
    case 1
    with a show ?thesis
      by (simp add: handleColorChangeButtonTap_def indexOf_format_order cycleIndex_from_HEX)
  next
    case 2
    with a show ?thesis
      by (simp add: handleColorChangeButtonTap_def indexOf_format_order cycleIndex_from_RGBA)
  qed
next
  assume b: "color st = \<lparr>format = HEX, cvalue = StrV str\<rparr> \<and>
    selectableColorCode st = [HEX \<mapsto> True, RGBA \<mapsto> False]"
  then have sel: "truthy (selectableColorCode st HEX)" "\<not> truthy (selectableColorCode st RGBA)"
    by (simp_all add: truthy_def)
  obtain v where v: "convertColor st HEX (StrV str) HEX = Inr v"
    by (auto simp: convertColor_def)
  from sel have "cycleIndex (selectableColorCode st) 0 = Some 0"
    by (simp add: cycleIndex_from_HEX)
  with b v have "handleColorChangeButtonTap st = Some (Inr \<lparr>format = HEX, cvalue = v\<rparr>)"
    by (simp add: handleColorChangeButtonTap_def indexOf_format_order bind_err_def
        format_order_def)
  with v show "\<exists>v. convertColor st HEX (StrV str) HEX = Inr v \<and>
      handleColorChangeButtonTap st = Some (Inr \<lparr>format = HEX, cvalue = v\<rparr>)"
    by blast
qed

lemma convertColor_red:
  "convertColor st_hex_only HEX (StrV ''#ff0000'') HEX = Inr (StrV ''#ff0000'')"
  by (simp add: convertColor_def isHex_def st_hex_only_def st0_eq tinycolor_defs)

theorem handleColorChangeButtonTap_terminates_witness:
  "format (color st_hex_only) \<in> set format_order \<and>
   truthy (selectableColorCode st_hex_only (format (color st_hex_only))) \<and>
   selectableColorCode st_hex_only = [HEX \<mapsto> True, RGBA \<mapsto> False] \<and>
   handleColorChangeButtonTap st_hex_only
     = Some (Inr \<lparr>format = HEX, cvalue = StrV ''#ff0000''\<rparr>)"
  using handleColorChangeButtonTap_terminates [of st_hex_only "''#ff0000''"] convertColor_red
  by (simp add: st_hex_only_def st0_eq format_order_def truthy_def)

subsection \<open>Initialisation and update\<close>

text \<open>The initialisation makes the format of the colour selectable.\<close>

lemma init_selectable:
  "truthy (selectableColorCode (init os) (format (color (init os))))"
  by (simp add: init_def Let_def truthy_def)

text \<open>
  Claim C1 fails on the update handler. The host passes a colour in RGBA format together
  with a \<open>selectablecolorcode\<close> that allows HEX only. The handler takes both as they are:
  the format of the current colour is not selectable afterwards. The lines of the
  initialisation that widen the set are not repeated in the handler.
\<close>

theorem on_update_not_widened:
  "on_update opts_rgba_hex_only st0
     = Inr (st0\<lparr>opts := opts_rgba_hex_only,
               selectableColorCode := [HEX \<mapsto> True, RGBA \<mapsto> False],
               color := \<lparr>format = RGBA,
                         cvalue = RgbaV \<lparr>rgb_r = 255, rgb_g = 0, rgb_b = 0, rgb_a = 1\<rparr>\<rparr>\<rparr>) \<and>
   \<not> truthy ([HEX \<mapsto> True, RGBA \<mapsto> False] RGBA) \<and>
   truthy (selectableColorCode (init opts_rgba_hex_only) RGBA)"
  by (simp add: on_update_def init_def opts_rgba_hex_only_def truthy_def Let_def)

text \<open>
  A consequence: after an update with a colour in HEX format and no selectable format at
  all, the format cycler never returns, whereas after an initialisation with the same
  options it does.
\<close>

lemma tap_after_update_diverges:
  "on_update opts_none_selectable st0 = Inr st' \<Longrightarrow> handleColorChangeButtonTap st' = None"
  by (auto simp: on_update_def opts_none_selectable_def Let_def isHex_def dropPound_def
      handleColorChangeButtonTap_def indexOf_format_order cycleIndex_diverges truthy_def
      split: if_splits)

lemma tap_after_init_returns:
  "\<exists>r. handleColorChangeButtonTap (init opts_none_selectable) = Some r"
  by (simp add: init_def opts_none_selectable_def Let_def handleColorChangeButtonTap_def
      indexOf_format_order cycleIndex_from_HEX truthy_def)

subsection \<open>\<open>getHsv\<close>\<close>






subsection \<open>The hex field\<close>

lemma set_dropPound: "set v \<subseteq> insert CHR ''#'' (set (dropPound v))"
proof (cases v)
  case Nil
  then show ?thesis by (simp add: dropPound_def)
next
  case (Cons c cs)
  then show ?thesis by (cases "c = CHR ''#''") (auto simp: dropPound_def)
qed

lemma isTypingHex_chars:
  assumes "isTypingHex v" and "c \<in> set v"
  shows "c = CHR ''#'' \<or> isHexDigit c"
proof -
  from assms(1) have "list_all isHexDigit (dropPound v)"
    by (simp add: isTypingHex_def Let_def)
  then have "\<forall>x \<in> set (dropPound v). isHexDigit x" by (simp add: list_all_iff)
  with assms(2) set_dropPound [of v] show ?thesis by auto
qed

lemma isTypingHex_no_E3: "isTypingHex v \<Longrightarrow> CHR 0xE3 \<notin> set v"
  using isTypingHex_chars [of v "CHR 0xE3"]
  by (auto simp: isHexDigit_def)

lemma isTypingHex_no_blank: "isTypingHex v \<Longrightarrow> CHR '' '' \<notin> set v"
  using isTypingHex_chars [of v "CHR '' ''"]
  by (auto simp: isHexDigit_def)

lemma replaceFullWidthSpace_id:
  "CHR 0xE3 \<notin> set v \<Longrightarrow> replaceFullWidthSpace v = v"
  by (induction v rule: replaceFullWidthSpace.induct) auto

lemma replaceFullWidthSpace_blank:
  "replaceFullWidthSpace v = v \<or> CHR '' '' \<in> set (replaceFullWidthSpace v)"
  by (induction v rule: replaceFullWidthSpace.induct) auto

lemma isHex_isTypingHex: "isHex v \<Longrightarrow> isTypingHex v"
  by (auto simp: isHex_def isTypingHex_def Let_def)

lemma dropPound_concatenatePoundKey: "dropPound (concatenatePoundKey v) = dropPound v"
  by (auto simp: dropPound_def concatenatePoundKey_def split: list.splits)

lemma isTypingHex_concatenatePoundKey: "isHex v \<Longrightarrow> isTypingHex (concatenatePoundKey v)"
  by (auto simp: isHex_def isTypingHex_def Let_def dropPound_concatenatePoundKey)

lemma normalizeHexValue_eq:
  assumes "o_color (opts st) = Some prev"
  shows "normalizeHexValue st raw =
           (if isHex raw then Inr (StrV (concatenatePoundKey raw))
            else if isTypingHex raw then Inr (StrV raw)
            else Inr (cvalue prev))"
proof (cases "isTypingHex raw")
  case True
  then have "replaceFullWidthSpace raw = raw"
    by (simp add: isTypingHex_no_E3 replaceFullWidthSpace_id)
  with True show ?thesis
    by (simp add: normalizeHexValue_def Let_def isTypingHex_concatenatePoundKey)
next
  case False
  then have nh: "\<not> isHex raw" using isHex_isTypingHex by blast
  have "\<not> isTypingHex (replaceFullWidthSpace raw)"
    using replaceFullWidthSpace_blank [of raw] False isTypingHex_no_blank by auto
  moreover from this have "\<not> isHex (replaceFullWidthSpace raw)"
    using isHex_isTypingHex by blast
  ultimately show ?thesis
    using False nh assms by (simp add: normalizeHexValue_def Let_def)
qed

text \<open>
  Claim C8, as amended. With \<open>previous\<close> the value of \<open>this.opts.color\<close>:
  \<open>normalizeHexValue\<close> returns an input that matches the committed pattern with \<open>#\<close>
  prefixed if absent, returns any other input that matches the typing pattern as it is
  (the empty input as the empty string), and returns the previous value for every input
  that fails the typing pattern. Full-width spaces are replaced by ASCII spaces, not
  removed: an input that contains one fails the typing pattern and yields the previous
  value.
\<close>

theorem normalizeHexValue_cases:
  assumes "o_color (opts st) = Some prev"
  shows
    "normalizeHexValue st [] = Inr (StrV []) \<and>
     (isHex raw \<longrightarrow> normalizeHexValue st raw = Inr (StrV (concatenatePoundKey raw))) \<and>
     (isTypingHex raw \<and> \<not> isHex raw \<longrightarrow> normalizeHexValue st raw = Inr (StrV raw)) \<and>
     (\<not> isTypingHex raw \<longrightarrow> normalizeHexValue st raw = Inr (cvalue prev)) \<and>
     (raw = pre @ fullWidthSpace @ post \<longrightarrow>
        replaceFullWidthSpace (fullWidthSpace @ post) = CHR '' '' # replaceFullWidthSpace post \<and>
        normalizeHexValue st raw = Inr (cvalue prev))"
proof -
  have empty: "normalizeHexValue st [] = Inr (StrV [])"
    by (simp add: normalizeHexValue_eq [OF assms] isHex_def isTypingHex_def dropPound_def)
  have fw: "raw = pre @ fullWidthSpace @ post \<Longrightarrow> \<not> isTypingHex raw"
    using isTypingHex_no_E3 [of raw] by (auto simp: fullWidthSpace_def)
  show ?thesis
    using empty fw isHex_isTypingHex [of raw]
    by (auto simp: normalizeHexValue_eq [OF assms] fullWidthSpace_def)
qed

theorem normalizeHexValue_cases_witness:
  "normalizeHexValue st_typed ''ff0'' = Inr (StrV ''#ff0'') \<and>
   normalizeHexValue st_typed ''ff00'' = Inr (StrV ''ff00'') \<and>
   normalizeHexValue st_typed ''ff0g'' = Inr (StrV ''#123456'') \<and>
   normalizeHexValue st_typed (''ff'' @ fullWidthSpace @ ''0'') = Inr (StrV ''#123456'')"
proof -
  have p: "o_color (opts st_typed) = Some \<lparr>format = HEX, cvalue = StrV ''#123456''\<rparr>"
    by (simp add: st_typed_def)
  show ?thesis
    using normalizeHexValue_cases [OF p, of "''ff0''"]
      normalizeHexValue_cases [OF p, of "''ff00''"]
      normalizeHexValue_cases [OF p, of "''ff0g''"]
      normalizeHexValue_cases [OF p, of "''ff'' @ fullWidthSpace @ ''0''" "''ff''" "''0''"]
    by (simp add: isHex_def isTypingHex_def dropPound_def isHexDigit_def
        concatenatePoundKey_def)
qed

text \<open>
  The claim as stated fails on the six digits \<open>ff0000\<close> followed by a full-width space.
  Were the space stripped, the input would be a committed hex code and \<open>#ff0000\<close> would
  be returned. The script turns it into \<open>ff0000\<close> followed by a blank and returns the
  previous value.
\<close>

theorem normalizeHexValue_full_width_counterexample:
  "replaceFullWidthSpace (''ff0000'' @ fullWidthSpace) = ''ff0000 '' \<and>
   normalizeHexValue st_typed (''ff0000'' @ fullWidthSpace) = Inr (StrV ''#123456'') \<and>
   normalizeHexValue st_typed ''ff0000'' = Inr (StrV ''#ff0000'')"
  by (simp add: normalizeHexValue_def fullWidthSpace_def st_typed_def isHex_def
      isTypingHex_def dropPound_def isHexDigit_def concatenatePoundKey_def)

subsection \<open>The recorded hue\<close>

text \<open>
  The three pointer handlers record the hue exactly when the colour they emit is not
  monochrome, and leave \<open>latestValidHue\<close> as it was otherwise.
\<close>

lemma bind_err_Inr: "bind_err m f = Inr y \<longleftrightarrow> (\<exists>x. m = Inr x \<and> f x = Inr y)"
  by (cases m) (simp_all add: bind_err_def)

lemma pickAt_latestValidHue:
  assumes "pickAt st r x y = Inr (st', (col, e))"
  shows "\<exists>c mono. e = Some c \<and> isMonochrome st (format col) (cvalue col) = Inr mono \<and>
           latestValidHue st' = (if mono then latestValidHue st else hsv_h c)"
proof -
  from assms obtain c val mono where
    "getColorObject st r x y = Inr c"
    and "convertColor st HSV (HsvV c) (format (color st)) = Inr val"
    and m: "isMonochrome st (format (color st)) val = Inr mono"
    and r: "(if \<not> mono then st\<lparr>latestValidHue := hsv_h c\<rparr> else st,
             (\<lparr>format = format (color st), cvalue = val\<rparr>, Some c)) = (st', (col, e))"
    unfolding pickAt_def bind_err_Inr Let_def by auto
  from r have "e = Some c" and "col = \<lparr>format = format (color st), cvalue = val\<rparr>"
    and "st' = (if \<not> mono then st\<lparr>latestValidHue := hsv_h c\<rparr> else st)"
    by simp_all
  with m show ?thesis by (cases mono) auto
qed

text \<open>The hue slider leaves every variable of the script as it was.\<close>

lemma handleHueSliderChange_state:
  "handleHueSliderChange st hue = Inr (st', e) \<Longrightarrow> st' = st"
  unfolding handleHueSliderChange_def bind_err_Inr Let_def by auto

lemma st_green_fields:
  "color st_green = \<lparr>format = HEX, cvalue = StrV ''#00ff00''\<rparr>"
  "latestValidHue st_green = 0"
  by (simp_all add: st_green_def st0_eq)

lemma getColorObject_green:
  "getColorObject (st_green\<lparr>isCatcherActive := True\<rparr>) spectrum_rect 100 50
     = Inr \<lparr>hsv_h = 120, hsv_s = 50, hsv_v = 50\<rparr>"
  "getColorObject (st_green\<lparr>isCatcherActive := True\<rparr>) spectrum_rect 0 50
     = Inr \<lparr>hsv_h = 120, hsv_s = 0, hsv_v = 50\<rparr>"
  by (simp_all add: getColorObject_def bind_err_def getHsv_def converter_defs st_green_def
      st0_eq dropPound_def tinycolor_defs spectrum_rect_def clampX_def clampY_def)

lemma convert_green_examples:
  "convertColor (st_green\<lparr>isCatcherActive := True\<rparr>) HSV
     (HsvV \<lparr>hsv_h = 120, hsv_s = 50, hsv_v = 50\<rparr>) HEX = Inr (StrV ''#408040'')"
  "convertColor (st_green\<lparr>isCatcherActive := True\<rparr>) HSV
     (HsvV \<lparr>hsv_h = 120, hsv_s = 0, hsv_v = 50\<rparr>) HEX = Inr (StrV ''#808080'')"
  "convertColor st_green HSV (HsvV \<lparr>hsv_h = 240, hsv_s = 100, hsv_v = 100\<rparr>) HEX
     = Inr (StrV ''#0000ff'')"
  by (simp_all add: convertColor_def tinycolor_defs)

lemma isMonochrome_green_examples:
  "isMonochrome (st_green\<lparr>isCatcherActive := True\<rparr>) HEX (StrV ''#408040'') = Inr False"
  "isMonochrome (st_green\<lparr>isCatcherActive := True\<rparr>) HEX (StrV ''#808080'') = Inr True"
  "isMonochrome st_green HEX (StrV ''#0000ff'') = Inr False"
  by (simp_all add: converter_defs dropPound_def tinycolor_defs)

text \<open>
  A pointer press on a chromatic point records the hue 120; a press at the left edge,
  where the saturation is 0, leaves the recorded hue at its prior value 0.
\<close>

lemma pointer_chromatic_records:
  "handleCanvasMouseDown st_green spectrum_rect 100 50
     = Inr (st_green\<lparr>isCatcherActive := True, latestValidHue := 120\<rparr>,
            (\<lparr>format = HEX, cvalue = StrV ''#408040''\<rparr>,
             Some \<lparr>hsv_h = 120, hsv_s = 50, hsv_v = 50\<rparr>))"
  by (simp add: handleCanvasMouseDown_def pickAt_def bind_err_def getColorObject_green
      convert_green_examples isMonochrome_green_examples st_green_fields)

lemma pointer_grey_keeps:
  "handleCanvasMouseDown st_green spectrum_rect 0 50
     = Inr (st_green\<lparr>isCatcherActive := True\<rparr>,
            (\<lparr>format = HEX, cvalue = StrV ''#808080''\<rparr>,
             Some \<lparr>hsv_h = 120, hsv_s = 0, hsv_v = 50\<rparr>))"
  by (simp add: handleCanvasMouseDown_def pickAt_def bind_err_def getColorObject_green
      convert_green_examples isMonochrome_green_examples st_green_fields)

lemma convertToHsv_green:
  "convertToHsv st_green HEX (StrV ''#00ff00'') = Inr \<lparr>hsv_h = 120, hsv_s = 1, hsv_v = 1\<rparr>"
  by (simp add: converter_defs dropPound_def tinycolor_defs)

text \<open>
  Claim C4 fails on the hue slider. The current colour is \<open>#00ff00\<close> and the recorded hue
  is 0. Moving the slider to 240 emits \<open>#0000ff\<close>, which is not monochrome, and the state
  after the handler is the state before it: the recorded hue is still 0.
\<close>

theorem handleHueSliderChange_does_not_record:
  "handleHueSliderChange st_green 240
     = Inr (st_green, (\<lparr>format = HEX, cvalue = StrV ''#0000ff''\<rparr>,
                       Some \<lparr>hsv_h = 240, hsv_s = 100, hsv_v = 100\<rparr>)) \<and>
   isMonochrome st_green HEX (StrV ''#0000ff'') = Inr False \<and>
   latestValidHue st_green = 0"
  by (simp add: handleHueSliderChange_def bind_err_def st_green_fields convertToHsv_green
      Math_round_def convert_green_examples isMonochrome_green_examples)

subsection \<open>Writes through \<open>this.color\<close>\<close>

lemma convertColor_red_to_rgba:
  "convertColor st_hex_only RGBA (StrV ''#ff0000'') RGBA
     = Inr (RgbaV \<lparr>rgb_r = 255, rgb_g = 0, rgb_b = 0, rgb_a = 1\<rparr>)"
  by (simp add: convertColor_def dropPound_def tinycolor_defs)

lemma alpha_slider_on_hex:
  "case handleAlphaSliderChange st_hex_only store_hex 0 50 of
     Inl e \<Rightarrow> False
   | Inr (h, p) \<Rightarrow>
       p = 0 \<and>
       read_color h 0
         = Some \<lparr>format = RGBA,
                 cvalue = RgbaV \<lparr>rgb_r = 255, rgb_g = 0, rgb_b = 0, rgb_a = 1 / 2\<rparr>\<rparr>"
  by (simp add: handleAlphaSliderChange_def store_hex_def read_value_def read_color_def
      bind_err_def convertColor_red_to_rgba Let_def)

lemma red_input_on_rgba:
  "case handleInputRgbaRedInput store_rgba 0 (Some 200) of
     Inl e \<Rightarrow> False
   | Inr (h, p) \<Rightarrow>
       p = 2 \<and>
       read_color h 0
         = Some \<lparr>format = RGBA,
                 cvalue = RgbaV \<lparr>rgb_r = 200, rgb_g = 20, rgb_b = 30, rgb_a = 1\<rparr>\<rparr>"
  by (simp add: handleInputRgbaRedInput_def inputChannel_def store_rgba_def read_value_def
      read_color_def Let_def)

text \<open>
  Claim C6 fails on the alpha slider and on the RGBA text inputs. The alpha slider works on
  \<open>this.color\<close> itself: with the stored colour the HEX string \<open>#ff0000\<close> and the slider
  at 50, the object passed to \<open>oncolorchange\<close> is the stored object (reference 0), and a
  reader of the stored object now sees an RGBA colour of alpha 1/2. The red input builds a
  new object around the stored \<open>value\<close>: typing 200 changes the red channel that the stored
  colour shows as well.
\<close>

theorem handlers_mutate_stored_color:
  "read_color store_hex 0 = Some \<lparr>format = HEX, cvalue = StrV ''#ff0000''\<rparr> \<and>
   (case handleAlphaSliderChange st_hex_only store_hex 0 50 of
      Inl e \<Rightarrow> False
    | Inr (h, p) \<Rightarrow>
        p = 0 \<and>
        read_color h 0
          = Some \<lparr>format = RGBA,
                  cvalue = RgbaV \<lparr>rgb_r = 255, rgb_g = 0, rgb_b = 0, rgb_a = 1 / 2\<rparr>\<rparr>) \<and>
   read_color store_rgba 0
     = Some \<lparr>format = RGBA,
             cvalue = RgbaV \<lparr>rgb_r = 10, rgb_g = 20, rgb_b = 30, rgb_a = 1\<rparr>\<rparr> \<and>
   (case handleInputRgbaRedInput store_rgba 0 (Some 200) of
      Inl e \<Rightarrow> False
    | Inr (h, p) \<Rightarrow>
        p = 2 \<and>
        read_color h 0
          = Some \<lparr>format = RGBA,
                  cvalue = RgbaV \<lparr>rgb_r = 200, rgb_g = 20, rgb_b = 30, rgb_a = 1\<rparr>\<rparr>)"
proof -
  have c: "read_color store_hex 0 = Some \<lparr>format = HEX, cvalue = StrV ''#ff0000''\<rparr>"
    by (simp add: store_hex_def read_color_def read_value_def)
  have d: "read_color store_rgba 0
     = Some \<lparr>format = RGBA,
             cvalue = RgbaV \<lparr>rgb_r = 10, rgb_g = 20, rgb_b = 30, rgb_a = 1\<rparr>\<rparr>"
    by (simp add: store_rgba_def read_color_def read_value_def)
  from alpha_slider_on_hex red_input_on_rgba c d show ?thesis
    by (intro conjI)
qed

text \<open>
  The write to \<open>color.format\<close> also changes what the next statement converts. With the
  hex field cleared and red as the last valid colour, converting the stored HEX value
  gives red; the alpha slider, which reads the format after having overwritten it, hands
  the empty string to the library directly and emits black.
\<close>

lemma convertColor_cleared:
  "convertColor st_cleared RGBA (StrV []) RGBA
     = Inr (RgbaV \<lparr>rgb_r = 0, rgb_g = 0, rgb_b = 0, rgb_a = 1\<rparr>)"
  "convertColor st_cleared HEX (StrV []) RGBA
     = Inr (RgbaV \<lparr>rgb_r = 255, rgb_g = 0, rgb_b = 0, rgb_a = 1\<rparr>)"
  by (simp_all add: convertColor_def isHex_def st_cleared_def dropPound_def tinycolor_defs)

lemma alpha_slider_skips_fallback:
  "case handleAlphaSliderChange st_cleared store_cleared 0 50 of
     Inl e \<Rightarrow> False
   | Inr (h, p) \<Rightarrow>
       read_color h p
         = Some \<lparr>format = RGBA,
                 cvalue = RgbaV \<lparr>rgb_r = 0, rgb_g = 0, rgb_b = 0, rgb_a = 1 / 2\<rparr>\<rparr>"
  by (simp add: handleAlphaSliderChange_def store_cleared_def read_value_def read_color_def
      bind_err_def convertColor_cleared Let_def)

end
